theory Spec2Isabelle
  imports Complex_Main "HOL-Library.Sublist"
begin

section \<open>Numbers\<close>

text \<open>
  The program computes on JavaScript numbers. Finite numbers are idealised as reals
  (no rounding); the one non-number value the code tests for, \<open>NaN\<close>, is a constructor of
  its own where a value can be \<open>NaN\<close> (the result of \<open>parseFloat\<close>). Coordinates that
  reach the sampler have passed the parser's \<open>isNaN\<close> guard, so they are reals.
\<close>

datatype jsnum = NaN | Num real

definition isNaN :: "jsnum \<Rightarrow> bool" where
  "isNaN n = (n = NaN)"

text \<open>\<open>new Date(s)\<close>: the date is kept as the text it was built from.\<close>

datatype jsdate = Date string

section \<open>Data model (types)\<close>

record GPXPoint =
  lat :: real
  lon :: real
  ele :: "jsnum option"
  time :: "jsdate option"

record GPXTrack =
  name :: "string option"
  points :: "GPXPoint list"

record Coordinates =
  coord_lat :: real
  lng :: real

record StreetViewImage =
  image_id :: string
  url :: "string option"
  coordinates :: Coordinates
  heading :: "real option"
  pitch :: "real option"
  distance :: real
  loaded :: bool
  error :: "string option"
  isLoading :: "bool option"

section \<open>Geodesy utilities (lib/utils.ts)\<close>

definition toRadians :: "real \<Rightarrow> real" where
  "toRadians degrees = degrees * (pi / 180)"

text \<open>
  \<open>Math.atan2(y, x)\<close> on reals: the angle of the point \<open>(x, y)\<close>, in \<open>(-pi, pi]\<close>, and
  \<open>0\<close> at the origin. The reals have no negative zero and no rounding: on doubles
  \<open>Math.atan2\<close> also returns \<open>-pi\<close>, for \<open>y = -0\<close> (or a negative \<open>y\<close> that is tiny against
  \<open>x\<close>) and \<open>x < 0\<close>. Bounds on angles are therefore stated with both ends closed.
\<close>

definition atan2 :: "real \<Rightarrow> real \<Rightarrow> real" where
  "atan2 y x =
     (if 0 < x then arctan (y / x)
      else if x < 0 then (if 0 \<le> y then arctan (y / x) + pi else arctan (y / x) - pi)
      else if 0 < y then pi / 2
      else if y < 0 then - (pi / 2)
      else 0)"

text \<open>
  The haversine formula. Over the reals \<open>a\<close> lies in \<open>[0, 1]\<close>; on doubles it can round above
  1 for nearly antipodal points, where the code returns \<open>NaN\<close>. The properties below do not
  depend on the value of the distance.
\<close>

definition calculateDistance :: "real \<Rightarrow> real \<Rightarrow> real \<Rightarrow> real \<Rightarrow> real" where
  "calculateDistance lat1 lon1 lat2 lon2 =
     (let R = 6371000;
          dLat = toRadians (lat2 - lat1);
          dLon = toRadians (lon2 - lon1);
          a = sin (dLat / 2) * sin (dLat / 2) +
              cos (toRadians lat1) * cos (toRadians lat2) * sin (dLon / 2) * sin (dLon / 2);
          c = 2 * atan2 (sqrt a) (sqrt (1 - a))
      in R * c)"

definition calculateBearing :: "real \<Rightarrow> real \<Rightarrow> real \<Rightarrow> real \<Rightarrow> real" where
  "calculateBearing lat1 lon1 lat2 lon2 =
     (let dLon = toRadians (lon2 - lon1);
          y = sin dLon * cos (toRadians lat2);
          x = cos (toRadians lat1) * sin (toRadians lat2) -
              sin (toRadians lat1) * cos (toRadians lat2) * cos dLon;
          bearing = atan2 y x
      in (bearing * 180) / pi)"

section \<open>Route sampler (lib/street-view-api.ts)\<close>

text \<open>
  The state of the sampling loop: the three local variables that the loop body writes.
\<close>

record sampler_state =
  sampledPoints :: "GPXPoint list"
  accumulatedDistance :: real
  lastSampledIndex :: nat

text \<open>The loop body at index \<open>i\<close> (\<open>1 \<le> i < length pts\<close>).\<close>

definition sampleStep :: "GPXPoint list \<Rightarrow> real \<Rightarrow> nat \<Rightarrow> sampler_state \<Rightarrow> sampler_state" where
  "sampleStep pts intervalDistance i st =
     (let d = calculateDistance (lat (pts ! (i - 1))) (lon (pts ! (i - 1)))
                                (lat (pts ! i)) (lon (pts ! i));
          acc = accumulatedDistance st + d
      in if acc \<ge> intervalDistance
         then st\<lparr>sampledPoints := sampledPoints st @ [pts ! i],
                 accumulatedDistance := 0,
                 lastSampledIndex := i\<rparr>
         else st\<lparr>accumulatedDistance := acc\<rparr>)"

definition sampleLoop :: "GPXPoint list \<Rightarrow> real \<Rightarrow> nat \<Rightarrow> sampler_state" where
  "sampleLoop pts intervalDistance n =
     fold (sampleStep pts intervalDistance) [1..<n]
       \<lparr>sampledPoints = [pts ! 0], accumulatedDistance = 0, lastSampledIndex = 0\<rparr>"

definition samplePointsAtInterval :: "GPXPoint list \<Rightarrow> real \<Rightarrow> GPXPoint list" where
  "samplePointsAtInterval pts intervalDistance =
     (if length pts < 2 then pts
      else
        let st = sampleLoop pts intervalDistance (length pts);
            lastPoint = pts ! (length pts - 1);
            lastSampledPoint = sampledPoints st ! (length (sampledPoints st) - 1)
        in if lat lastSampledPoint \<noteq> lat lastPoint \<or> lon lastSampledPoint \<noteq> lon lastPoint
           then sampledPoints st @ [lastPoint]
           else sampledPoints st)"

text \<open>
  The loop invariant: the sampled points are a subsequence of the input points up to the
  last sampled index, beginning with the first input point and ending with the point at
  the last sampled index.
\<close>

definition sampler_inv :: "GPXPoint list \<Rightarrow> nat \<Rightarrow> sampler_state \<Rightarrow> bool" where
  "sampler_inv pts n st =
     (lastSampledIndex st < n \<and> sampledPoints st \<noteq> [] \<and>
      hd (sampledPoints st) = pts ! 0 \<and>
      last (sampledPoints st) = pts ! lastSampledIndex st \<and>
      subseq (sampledPoints st) (take (Suc (lastSampledIndex st)) pts))"

section \<open>Placeholder generation (lib/street-view-api.ts)\<close>

text \<open>\<open>throw new Error(message)\<close>; an \<open>async\<close> function that throws rejects with it.\<close>

datatype app_error = Error string

text \<open>
  The state of the generation loop: the \<open>images\<close> array, \<open>totalDistance\<close>, and the calls
  made to the optional \<open>onProgress\<close> callback.
\<close>

record placeholder_state =
  images :: "StreetViewImage list"
  totalDistance :: real
  progressCalls :: "(nat \<times> nat) list"

text \<open>
  The loop body at index \<open>i\<close>. \<open>generateId\<close> draws a random string; the model takes the
  string drawn in iteration \<open>i\<close> as \<open>generateId i\<close>. \<open>sampledPoints[i + 1]\<close> is
  \<open>undefined\<close> (falsy) exactly at the last index.
\<close>

definition placeholderStep ::
  "(nat \<Rightarrow> string) \<Rightarrow> bool \<Rightarrow> GPXPoint list \<Rightarrow> nat \<Rightarrow> placeholder_state \<Rightarrow> placeholder_state" where
  "placeholderStep generateId onProgress sampled i st =
     (let point = sampled ! i;
          heading0 = (if i + 1 < length sampled
                      then calculateBearing (lat point) (lon point)
                             (lat (sampled ! (i + 1))) (lon (sampled ! (i + 1)))
                      else 0);
          total = (if i > 0
                   then totalDistance st +
                        calculateDistance (lat (sampled ! (i - 1))) (lon (sampled ! (i - 1)))
                          (lat point) (lon point)
                   else totalDistance st);
          image = \<lparr>image_id = generateId i,
                   url = None,
                   coordinates = \<lparr>coord_lat = lat point, lng = lon point\<rparr>,
                   heading = Some heading0,
                   pitch = Some 0,
                   distance = total,
                   loaded = False,
                   error = None,
                   isLoading = Some False\<rparr>
      in st\<lparr>images := images st @ [image],
              totalDistance := total,
              progressCalls := (if onProgress
                                then progressCalls st @ [(i + 1, length sampled)]
                                else progressCalls st)\<rparr>)"

definition placeholderLoop ::
  "(nat \<Rightarrow> string) \<Rightarrow> bool \<Rightarrow> GPXPoint list \<Rightarrow> nat \<Rightarrow> placeholder_state" where
  "placeholderLoop generateId onProgress sampled n =
     fold (placeholderStep generateId onProgress sampled) [0..<n]
       \<lparr>images = [], totalDistance = 0, progressCalls = []\<rparr>"

text \<open>The result: the images returned, with the calls made to \<open>onProgress\<close>.\<close>

definition generateStreetViewPlaceholders ::
  "(nat \<Rightarrow> string) \<Rightarrow> bool \<Rightarrow> GPXPoint list \<Rightarrow> real \<Rightarrow>
     app_error + (StreetViewImage list \<times> (nat \<times> nat) list)" where
  "generateStreetViewPlaceholders generateId onProgress pts intervalDistance =
     (if length pts < 2
      then Inl (Error ''At least 2 points are required to generate Street View placeholders'')
      else
        let sampled = samplePointsAtInterval pts intervalDistance
        in if length sampled = 0
           then Inl (Error ''No valid points found for Street View placeholder generation'')
           else
             let st = placeholderLoop generateId onProgress sampled (length sampled)
             in Inr (images st, progressCalls st))"

text \<open>
  The distance between the coordinates of two viewpoints, the running sum of it along a
  viewpoint sequence, and the running sum of the leg lengths along a point sequence.
\<close>

definition imageLeg :: "StreetViewImage \<Rightarrow> StreetViewImage \<Rightarrow> real" where
  "imageLeg a b =
     calculateDistance (coord_lat (coordinates a)) (lng (coordinates a))
                       (coord_lat (coordinates b)) (lng (coordinates b))"

definition imageBearing :: "StreetViewImage \<Rightarrow> StreetViewImage \<Rightarrow> real" where
  "imageBearing a b =
     calculateBearing (coord_lat (coordinates a)) (lng (coordinates a))
                      (coord_lat (coordinates b)) (lng (coordinates b))"

definition pointLeg :: "GPXPoint \<Rightarrow> GPXPoint \<Rightarrow> real" where
  "pointLeg a b = calculateDistance (lat a) (lon a) (lat b) (lon b)"

definition pathLength :: "GPXPoint list \<Rightarrow> nat \<Rightarrow> real" where
  "pathLength ps i = (\<Sum>k<i. pointLeg (ps ! k) (ps ! Suc k))"

text \<open>The image built for index \<open>i\<close> of the sampled points, in closed form.\<close>

definition placeholderAt :: "(nat \<Rightarrow> string) \<Rightarrow> GPXPoint list \<Rightarrow> nat \<Rightarrow> StreetViewImage" where
  "placeholderAt generateId sampled i =
     \<lparr>image_id = generateId i,
      url = None,
      coordinates = \<lparr>coord_lat = lat (sampled ! i), lng = lon (sampled ! i)\<rparr>,
      heading = Some (if i + 1 < length sampled
                      then calculateBearing (lat (sampled ! i)) (lon (sampled ! i))
                             (lat (sampled ! (i + 1))) (lon (sampled ! (i + 1)))
                      else 0),
      pitch = Some 0,
      distance = pathLength sampled i,
      loaded = False,
      error = None,
      isLoading = Some False\<rparr>"

section \<open>Viewpoint resolver (lib/street-view-api.ts)\<close>

text \<open>
  What the code asks of the browser: the text of a number (\<open>toString\<close>, template
  strings), the serialisation of \<open>URLSearchParams\<close>, and whether an \<open>Image\<close> whose
  \<open>src\<close> is set to a URL fires \<open>onload\<close> (\<open>True\<close>) or \<open>onerror\<close> (\<open>False\<close>).
\<close>

record browser =
  numberToString :: "real \<Rightarrow> string"
  searchParamsToString :: "(string \<times> string) list \<Rightarrow> string"
  imageLoads :: "string \<Rightarrow> bool"

definition generateStreetViewURL ::
  "browser \<Rightarrow> real \<Rightarrow> real \<Rightarrow> real \<Rightarrow> string \<Rightarrow> string \<Rightarrow> real \<Rightarrow> real \<Rightarrow> string" where
  "generateStreetViewURL br la lg hd0 apiKey imageSize fov pt =
     (let baseUrl = ''https://maps.googleapis.com/maps/api/streetview'';
          params = [(''size'', imageSize),
                    (''location'', numberToString br la @ '','' @ numberToString br lg),
                    (''heading'', numberToString br hd0),
                    (''pitch'', numberToString br pt),
                    (''fov'', numberToString br fov),
                    (''key'', apiKey)]
      in baseUrl @ ''?'' @ searchParamsToString br params)"

text \<open>
  \<open>loadStreetViewImage\<close> returns a promise: it rejects with an error (\<open>Inl\<close>) or resolves
  with an image record (\<open>Inr\<close>). The second component lists the URLs handed to
  \<open>loadImage\<close>. An omitted \<open>size\<close> (here \<open>imageSize\<close>), \<open>fov\<close> or \<open>pitch\<close> is \<open>None\<close> and takes the default of
  the signature. The input record is never written: each result is a new record.
\<close>

definition loadStreetViewImage ::
  "browser \<Rightarrow> StreetViewImage \<Rightarrow> string \<Rightarrow> string option \<Rightarrow> real option \<Rightarrow> real option \<Rightarrow>
     (app_error + StreetViewImage) \<times> string list" where
  "loadStreetViewImage br img apiKey imageSize fov pt =
     (if apiKey = [] then (Inl (Error ''Google API key is required''), [])
      else if loaded img \<or> isLoading img = Some True then (Inr img, [])
      else
        let updatedImage = img\<lparr>isLoading := Some True\<rparr>;
            u = generateStreetViewURL br
                  (coord_lat (coordinates img)) (lng (coordinates img))
                  (case heading img of None \<Rightarrow> 0 | Some h \<Rightarrow> h)
                  apiKey
                  (case imageSize of None \<Rightarrow> ''640x640'' | Some sz \<Rightarrow> sz)
                  (case fov of None \<Rightarrow> 90 | Some f \<Rightarrow> f)
                  (case pt of None \<Rightarrow> 0 | Some q \<Rightarrow> q)
        in if imageLoads br u
           then (Inr (updatedImage\<lparr>url := Some u, loaded := True, isLoading := Some False\<rparr>), [u])
           else (Inr (updatedImage\<lparr>loaded := False, isLoading := Some False,
                                    error := Some ''Failed to load Street View image''\<rparr>), [u]))"

text \<open>\<open>validateApiKey\<close>: the regular expression \<open>/^[A-Za-z0-9_-]{35,45}$/\<close>.\<close>

definition apiKeyChar :: "char \<Rightarrow> bool" where
  "apiKeyChar c =
     (c \<in> set ''ABCDEFGHIJKLMNOPQRSTUVWXYZabcdefghijklmnopqrstuvwxyz0123456789_-'')"

definition validateApiKey :: "string \<Rightarrow> bool" where
  "validateApiKey apiKey =
     (35 \<le> length apiKey \<and> length apiKey \<le> 45 \<and> list_all apiKeyChar apiKey)"

section \<open>Export pipeline (lib/export-utils.ts, components/ExportDialog.tsx)\<close>

text \<open>
  The export acts on the browser: it fetches image URLs, hands files to \<open>saveAs\<close>, waits,
  writes to the console, raises an alert and calls the dialog's callbacks. The model
  returns these actions in order, next to the outcome of the promise.
\<close>

type_synonym blob = string

text \<open>
  An entry of the archive. The text of \<open>metadata.json\<close> and of \<open>route_info.txt\<close> is kept as
  the call that produces it (\<open>generateMetadata\<close>, \<open>generateRouteInfo\<close> on the image list and
  the route name).
\<close>

datatype zip_content =
    Folder
  | ImageBlob blob
  | MetadataJson "StreetViewImage list" string
  | RouteInfoText "StreetViewImage list" string

datatype saved_file = ZipArchive "(string \<times> zip_content) list" | ImageFile blob

datatype export_event =
    Fetch "string option"
  | SaveAs saved_file string
  | Delay nat
  | ConsoleWarn nat
  | ConsoleError
  | Alert string
  | OnExportStart
  | OnExportComplete
  | OnClose

text \<open>
  The answers of the browser: the bytes behind a URL (\<open>None\<close> when \<open>fetch\<close> or \<open>blob\<close>
  rejects), whether \<open>zip.folder\<close> returns a folder, the error of \<open>zip.generateAsync\<close>, if it
  rejects, and the text that the built-in \<open>toFixed(1)\<close> gives for a number.
\<close>

record export_env =
  fetchBlob :: "string option \<Rightarrow> blob option"
  zipFolderCreated :: bool
  zipGenerateError :: "string option"
  numberToFixed1 :: "real \<Rightarrow> string"

datatype export_format = Zip | Individual

datatype image_quality = High | Medium | Low

record ExportOptions =
  format :: export_format
  includeMetadata :: bool
  imageQuality :: image_quality

text \<open>Decimal text of a natural number and of an integer (\<open>String(n)\<close>).\<close>

definition digitChar :: "nat \<Rightarrow> char" where
  "digitChar d = ''0123456789'' ! d"

fun showNat :: "nat \<Rightarrow> string" where
  "showNat n = (if n < 10 then [digitChar n] else showNat (n div 10) @ [digitChar (n mod 10)])"

declare showNat.simps [simp del]

definition showInt :: "int \<Rightarrow> string" where
  "showInt i = (if i < 0 then ''-'' @ showNat (nat (- i)) else showNat (nat i))"

definition padStart :: "nat \<Rightarrow> char \<Rightarrow> string \<Rightarrow> string" where
  "padStart n c str = replicate (n - length str) c @ str"

text \<open>\<open>Math.round\<close> rounds halves up.\<close>

definition mathRound :: "real \<Rightarrow> int" where
  "mathRound x = \<lfloor>x + 1 / 2\<rfloor>"

definition formatDistance :: "export_env \<Rightarrow> real \<Rightarrow> string" where
  "formatDistance env meters =
     (if meters < 1000 then showInt (mathRound meters) @ ''m''
      else numberToFixed1 env (meters / 1000) @ ''km'')"

text \<open>A JavaScript string is truthy when it is present and not empty.\<close>

definition truthy :: "string option \<Rightarrow> bool" where
  "truthy x = (case x of None \<Rightarrow> False | Some str \<Rightarrow> str \<noteq> [])"

text \<open>\<open>routeName.replace(/[^a-z0-9]/gi, '_').toLowerCase()\<close>.\<close>

definition toLowerChar :: "char \<Rightarrow> char" where
  "toLowerChar c =
     (case map_of (zip ''ABCDEFGHIJKLMNOPQRSTUVWXYZ'' ''abcdefghijklmnopqrstuvwxyz'') c of
        None \<Rightarrow> c | Some l \<Rightarrow> l)"

definition sanitizeName :: "string \<Rightarrow> string" where
  "sanitizeName routeName =
     map toLowerChar
       (map (\<lambda>c. if c \<in> set ''ABCDEFGHIJKLMNOPQRSTUVWXYZabcdefghijklmnopqrstuvwxyz0123456789''
                 then c else CHR ''_'') routeName)"

record zip_state =
  entries :: "(string \<times> zip_content) list"
  zipEvents :: "export_event list"

text \<open>The body of the archive loop for the image at index \<open>i\<close>.\<close>

definition zipStep :: "export_env \<Rightarrow> nat \<times> StreetViewImage \<Rightarrow> zip_state \<Rightarrow> zip_state" where
  "zipStep env p st =
     (let i = fst p; img = snd p
      in if \<not> loaded img \<or> truthy (error img) then st
         else case fetchBlob env (url img) of
                Some b \<Rightarrow>
                  let filename = padStart 3 (CHR ''0'') (showNat (i + 1)) @ ''_'' @
                                 formatDistance env (distance img) @ ''.jpg''
                  in st\<lparr>entries := entries st @ [(''images/'' @ filename, ImageBlob b)],
                          zipEvents := zipEvents st @ [Fetch (url img)]\<rparr>
              | None \<Rightarrow> st\<lparr>zipEvents := zipEvents st @ [Fetch (url img), ConsoleWarn (i + 1)]\<rparr>)"

definition exportImagesAsZip ::
  "export_env \<Rightarrow> StreetViewImage list \<Rightarrow> ExportOptions \<Rightarrow> string option \<Rightarrow>
     (app_error + unit) \<times> export_event list" where
  "exportImagesAsZip env imgs options routeName0 =
     (let routeName = (case routeName0 of None \<Rightarrow> ''gpx-route'' | Some n \<Rightarrow> n)
      in if \<not> zipFolderCreated env then (Inl (Error ''Failed to create ZIP folder''), [])
         else
           let st = fold (zipStep env) (zip [0..<length imgs] imgs)
                      \<lparr>entries = [(''images/'', Folder)], zipEvents = []\<rparr>;
               files = (if includeMetadata options
                        then entries st @ [(''metadata.json'', MetadataJson imgs routeName),
                                           (''route_info.txt'', RouteInfoText imgs routeName)]
                        else entries st)
           in case zipGenerateError env of
                None \<Rightarrow>
                  (Inr (), zipEvents st @
                     [SaveAs (ZipArchive files) (sanitizeName routeName @ ''_street_view.zip'')])
              | Some e \<Rightarrow> (Inl (Error (''Failed to generate ZIP file: '' @ e)), zipEvents st))"

text \<open>The body of the loop of individual downloads for the image at index \<open>i\<close>.\<close>

definition individualStep ::
  "export_env \<Rightarrow> string \<Rightarrow> nat \<times> StreetViewImage \<Rightarrow> export_event list \<Rightarrow> export_event list" where
  "individualStep env routeName p evs =
     (let i = fst p; img = snd p
      in if \<not> loaded img \<or> truthy (error img) then evs
         else case fetchBlob env (url img) of
                Some b \<Rightarrow>
                  let filename = routeName @ ''_'' @ padStart 3 (CHR ''0'') (showNat (i + 1)) @
                                 ''_'' @ formatDistance env (distance img) @ ''.jpg''
                  in evs @ [Fetch (url img), SaveAs (ImageFile b) filename, Delay 100]
              | None \<Rightarrow> evs @ [Fetch (url img), ConsoleWarn (i + 1)])"

definition exportIndividualImages ::
  "export_env \<Rightarrow> StreetViewImage list \<Rightarrow> string option \<Rightarrow>
     (app_error + unit) \<times> export_event list" where
  "exportIndividualImages env imgs routeName0 =
     (let routeName = (case routeName0 of None \<Rightarrow> ''gpx-route'' | Some n \<Rightarrow> n)
      in (Inr (), fold (individualStep env routeName) (zip [0..<length imgs] imgs) []))"

text \<open>
  \<open>ExportDialog.handleExport\<close>: every error of the export is caught, logged and shown in an
  alert, so the promise of \<open>handleExport\<close> itself always resolves.
\<close>

definition handleExport ::
  "export_env \<Rightarrow> StreetViewImage list \<Rightarrow> ExportOptions \<Rightarrow> string \<Rightarrow>
     (app_error + unit) \<times> export_event list" where
  "handleExport env imgs exportOptions routeName =
     (let validImages = filter (\<lambda>img. loaded img \<and> \<not> truthy (error img)) imgs
      in if length validImages = 0 then (Inr (), [])
         else
           let run = (if format exportOptions = Zip
                      then exportImagesAsZip env validImages exportOptions (Some routeName)
                      else exportIndividualImages env validImages (Some routeName));
               caught = (case fst run of
                           Inl e \<Rightarrow> [ConsoleError, Alert ''Export failed. Please try again.'']
                         | Inr u \<Rightarrow> [])
           in (Inr (), [OnExportStart] @ snd run @ caught @ [OnExportComplete, OnClose]))"

text \<open>
  What \<open>ExportDialog\<close> renders of the export request: the destructive warning alert, shown
  when no image is valid, and the disabled state of the two buttons. A click on a disabled
  button does not reach its handler.
\<close>

record dialog_view =
  destructiveAlert :: "string option"
  cancelDisabled :: bool
  exportDisabled :: bool

definition renderExportDialog :: "StreetViewImage list \<Rightarrow> bool \<Rightarrow> dialog_view" where
  "renderExportDialog imgs isExporting =
     (let validImages = filter (\<lambda>img. loaded img \<and> \<not> truthy (error img)) imgs
      in \<lparr>destructiveAlert =
            (if length validImages = 0
             then Some (''No valid images to export. '' @
                        ''Please ensure Street View images have loaded successfully.'')
             else None),
          cancelDisabled = isExporting,
          exportDisabled = (isExporting \<or> length validImages = 0)\<rparr>)"

definition clickExport ::
  "export_env \<Rightarrow> StreetViewImage list \<Rightarrow> ExportOptions \<Rightarrow> string \<Rightarrow> bool \<Rightarrow>
     (app_error + unit) \<times> export_event list" where
  "clickExport env imgs exportOptions routeName isExporting =
     (if exportDisabled (renderExportDialog imgs isExporting) then (Inr (), [])
      else handleExport env imgs exportOptions routeName)"

section \<open>Track parser (lib/gpx-parser.ts)\<close>

text \<open>
  The parser works on the document that \<open>DOMParser\<close> returns: a tree of elements, with
  attributes, and text nodes. \<open>elements n\<close> lists \<open>n\<close> and the elements below it in
  document order.
\<close>

datatype node = Element string "(string \<times> string) list" "node list" | TextNode string

fun elements :: "node \<Rightarrow> node list" and elementsOf :: "node list \<Rightarrow> node list" where
  "elements (Element t as cs) = Element t as cs # elementsOf cs"
| "elements (TextNode txt) = []"
| "elementsOf [] = []"
| "elementsOf (c # cs) = elements c @ elementsOf cs"

fun textContent :: "node \<Rightarrow> string" and textContentOf :: "node list \<Rightarrow> string" where
  "textContent (Element t as cs) = textContentOf cs"
| "textContent (TextNode txt) = txt"
| "textContentOf [] = []"
| "textContentOf (c # cs) = textContent c @ textContentOf cs"

fun tagName :: "node \<Rightarrow> string" where
  "tagName (Element t as cs) = t"
| "tagName (TextNode txt) = []"

fun childNodes :: "node \<Rightarrow> node list" where
  "childNodes (Element t as cs) = cs"
| "childNodes (TextNode txt) = []"

fun getAttribute :: "string \<Rightarrow> node \<Rightarrow> string option" where
  "getAttribute a (Element t as cs) = map_of as a"
| "getAttribute a (TextNode txt) = None"

text \<open>
  A type selector on an element matches the elements strictly below it; on the document
  it matches the root element too.
\<close>

definition querySelectorAll :: "string \<Rightarrow> node \<Rightarrow> node list" where
  "querySelectorAll tag el = filter (\<lambda>e. tagName e = tag) (elementsOf (childNodes el))"

definition querySelector :: "string \<Rightarrow> node \<Rightarrow> node option" where
  "querySelector tag el = (case querySelectorAll tag el of [] \<Rightarrow> None | e # es \<Rightarrow> Some e)"



text \<open>\<open>x || d\<close> on a string that may be \<open>null\<close>: the default replaces \<open>null\<close> and the empty string.\<close>

definition orElse :: "string option \<Rightarrow> string \<Rightarrow> string" where
  "orElse x d = (case x of None \<Rightarrow> d | Some str \<Rightarrow> if str = [] then d else str)"


definition numval :: "jsnum \<Rightarrow> real" where
  "numval n = (case n of Num r \<Rightarrow> r | NaN \<Rightarrow> 0)"

text \<open>
  \<open>parseFloat\<close> is a parameter of the parser, \<open>pf\<close>. The two coordinates are read from the
  attributes with the default text \<open>0\<close>; both loops build the same point record once the
  coordinates are numbers.
\<close>

definition attrOr0 :: "string \<Rightarrow> node \<Rightarrow> string" where
  "attrOr0 a el = orElse (getAttribute a el) ''0''"

definition pointFromElement :: "(string \<Rightarrow> jsnum) \<Rightarrow> node \<Rightarrow> GPXPoint" where
  "pointFromElement pf el =
     \<lparr>lat = numval (pf (attrOr0 ''lat'' el)),
      lon = numval (pf (attrOr0 ''lon'' el)),
      ele = (case querySelector ''ele'' el of
               None \<Rightarrow> None
             | Some e \<Rightarrow> Some (pf (orElse (Some (textContent e)) ''0''))),
      time = (case querySelector ''time'' el of
                None \<Rightarrow> None
              | Some e \<Rightarrow> Some (Date (orElse (Some (textContent e)) [])))\<rparr>"






definition waypointStep :: "(string \<Rightarrow> jsnum) \<Rightarrow> node \<Rightarrow> GPXPoint list \<Rightarrow> GPXPoint list" where
  "waypointStep pf waypointElement wpts =
     (let la = pf (attrOr0 ''lat'' waypointElement);
          lo = pf (attrOr0 ''lon'' waypointElement)
      in if isNaN la \<or> isNaN lo then wpts
         else wpts @ [pointFromElement pf waypointElement])"


record GPXMetadata =
  meta_name :: "string option"
  desc :: "string option"
  meta_time :: "jsdate option"


record GPXData =
  tracks :: "GPXTrack list"
  waypoints :: "GPXPoint list"
  metadata :: "GPXMetadata option"


text \<open>
  The parsed tracks as the specification describes them: of each track element, the track
  points whose latitude and longitude both parse as numbers, in document order; a track
  element that keeps no point gives no track.
\<close>

definition validPoint :: "(string \<Rightarrow> jsnum) \<Rightarrow> node \<Rightarrow> bool" where
  "validPoint pf el = (\<not> isNaN (pf (attrOr0 ''lat'' el)) \<and> \<not> isNaN (pf (attrOr0 ''lon'' el)))"




section \<open>Sample inputs\<close>

text \<open>A track point with coordinates only, and an id generator that counts in unary.\<close>

definition pointAt :: "real \<Rightarrow> real \<Rightarrow> GPXPoint" where
  "pointAt la lo = \<lparr>lat = la, lon = lo, ele = None, time = None\<rparr>"

definition unaryId :: "nat \<Rightarrow> string" where
  "unaryId i = replicate (Suc i) (CHR ''i'')"

definition sampleBrowser :: browser where
  "sampleBrowser =
     \<lparr>numberToString = (\<lambda>x. ''n''),
      searchParamsToString = (\<lambda>ps. concat (map (\<lambda>(k, v). k @ ''='' @ v @ ''&'') ps)),
      imageLoads = (\<lambda>u. True)\<rparr>"

definition loadedImage :: StreetViewImage where
  "loadedImage =
     \<lparr>image_id = ''a'', url = Some ''u'', coordinates = \<lparr>coord_lat = 0, lng = 0\<rparr>,
      heading = Some 90, pitch = Some 0, distance = 0, loaded = True, error = None,
      isLoading = Some False\<rparr>"

definition pendingImage :: StreetViewImage where
  "pendingImage =
     \<lparr>image_id = ''b'', url = None, coordinates = \<lparr>coord_lat = 0, lng = 90\<rparr>,
      heading = Some 0, pitch = Some 0, distance = 50, loaded = False, error = None,
      isLoading = Some False\<rparr>"

definition sampleExportEnv :: export_env where
  "sampleExportEnv =
     \<lparr>fetchBlob = (\<lambda>u. Some ''bytes''), zipFolderCreated = True, zipGenerateError = None,
      numberToFixed1 = (\<lambda>x. ''n'')\<rparr>"

definition zipOptions :: ExportOptions where
  "zipOptions = \<lparr>format = Zip, includeMetadata = True, imageQuality = High\<rparr>"

text \<open>
  \<open>parseFloat\<close> on plain decimal text: leading blanks, an optional sign, digits and an
  optional fraction, followed by anything; \<open>NaN\<close> when no digit is found there. (Exponents
  and \<open>Infinity\<close> are not covered; the sample documents have none.)
\<close>

definition isDigit :: "char \<Rightarrow> bool" where
  "isDigit c = (c \<in> set ''0123456789'')"

definition digitVal :: "char \<Rightarrow> nat" where
  "digitVal c = length (takeWhile (\<lambda>d. d \<noteq> c) ''0123456789'')"

definition natOfDigits :: "string \<Rightarrow> nat" where
  "natOfDigits ds = foldl (\<lambda>n c. 10 * n + digitVal c) 0 ds"

definition parseFloatDecimal :: "string \<Rightarrow> jsnum" where
  "parseFloatDecimal str =
     (let t = dropWhile (\<lambda>c. c = CHR '' '') str;
          neg = (take 1 t = ''-'');
          u = (if take 1 t = ''-'' \<or> take 1 t = ''+'' then drop 1 t else t);
          ip = takeWhile isDigit u;
          rest = dropWhile isDigit u;
          fp = (if take 1 rest = ''.'' then takeWhile isDigit (drop 1 rest) else [])
      in if ip = [] \<and> fp = [] then NaN
         else Num ((if neg then - 1 else 1) *
                   (real (natOfDigits ip) + real (natOfDigits fp) / 10 ^ length fp)))"






section \<open>Properties of the geodesy utilities\<close>




lemma haversine_half: "2 * atan2 (sqrt (1 / 2)) (sqrt (1 - 1 / 2)) = pi / 2"
  by (simp add: atan2_def arctan_one)

lemma sin_45_sq: "sin (pi / 4) * sin (pi / 4) = (1 / 2 :: real)"
  by (simp add: sin_45)

lemma dist_0_0_0_90: "calculateDistance 0 0 0 90 = 6371000 * (pi / 2)"
proof -
  have a: "sin (toRadians (0 - 0) / 2) * sin (toRadians (0 - 0) / 2) +
      cos (toRadians 0) * cos (toRadians 0) * sin (toRadians (90 - 0) / 2) *
      sin (toRadians (90 - 0) / 2) = 1 / 2"
    using sin_45_sq by (simp add: toRadians_def)
  show ?thesis
    unfolding calculateDistance_def Let_def a haversine_half by simp
qed

lemma dist_0_0_0_180: "calculateDistance 0 0 0 180 = 6371000 * pi"
  by (simp add: calculateDistance_def toRadians_def Let_def atan2_def)

lemma dist_0_180_0_90: "calculateDistance 0 180 0 90 = 6371000 * (pi / 2)"
proof -
  have a: "sin (toRadians (0 - 0) / 2) * sin (toRadians (0 - 0) / 2) +
      cos (toRadians 0) * cos (toRadians 0) * sin (toRadians (90 - 180) / 2) *
      sin (toRadians (90 - 180) / 2) = 1 / 2"
    using sin_45_sq by (simp add: toRadians_def)
  show ?thesis
    unfolding calculateDistance_def Let_def a haversine_half by simp
qed

lemma bearing_0_0_0_90: "calculateBearing 0 0 0 90 = 90"
  by (simp add: calculateBearing_def toRadians_def atan2_def Let_def)

section \<open>Properties of the sampler\<close>

lemma sampleLoop_Suc:
  "0 < n \<Longrightarrow> sampleLoop pts d (Suc n) = sampleStep pts d n (sampleLoop pts d n)"
  by (simp add: sampleLoop_def)

lemma sampleLoop_one:
  "sampleLoop pts d (Suc 0) =
     \<lparr>sampledPoints = [pts ! 0], accumulatedDistance = 0, lastSampledIndex = 0\<rparr>"
  by (simp add: sampleLoop_def)

lemma sampler_inv_init:
  assumes "pts \<noteq> []"
  shows "sampler_inv pts (Suc 0) (sampleLoop pts d (Suc 0))"
proof -
  from assms have "take (Suc 0) pts = [pts ! 0]"
    by (cases pts) simp_all
  then show ?thesis
    by (simp add: sampler_inv_def sampleLoop_one)
qed

lemma sampler_inv_step:
  assumes inv: "sampler_inv pts n st" and n: "0 < n" "n < length pts"
  shows "sampler_inv pts (Suc n) (sampleStep pts d n st)"
proof (cases "accumulatedDistance st +
    calculateDistance (lat (pts ! (n - 1))) (lon (pts ! (n - 1))) (lat (pts ! n)) (lon (pts ! n)) \<ge> d")
  case False
  with inv show ?thesis
    by (simp add: sampler_inv_def sampleStep_def Let_def)
next
  case True
  let ?l = "lastSampledIndex st"
  from inv have l: "?l < n" and ne: "sampledPoints st \<noteq> []"
    and sub: "subseq (sampledPoints st) (take (Suc ?l) pts)"
    and hd0: "hd (sampledPoints st) = pts ! 0"
    by (simp_all add: sampler_inv_def)
  have tk: "take (Suc ?l) (take (Suc n) pts) = take (Suc ?l) pts"
    using l by (simp add: min_def)
  have split: "take (Suc n) pts = take (Suc ?l) pts @ drop (Suc ?l) (take (Suc n) pts)"
    using append_take_drop_id [of "Suc ?l" "take (Suc n) pts"] by (simp only: tk)
  have len: "n - Suc ?l < length (drop (Suc ?l) (take (Suc n) pts))"
    using l n by simp
  have "drop (Suc ?l) (take (Suc n) pts) ! (n - Suc ?l) = pts ! n"
    using l n by simp
  with len have "pts ! n \<in> set (drop (Suc ?l) (take (Suc n) pts))"
    using nth_mem [OF len] by simp
  then have "subseq [pts ! n] (drop (Suc ?l) (take (Suc n) pts))"
    by (simp add: subseq_singleton_left)
  with sub have "subseq (sampledPoints st @ [pts ! n]) (take (Suc ?l) pts @ drop (Suc ?l) (take (Suc n) pts))"
    by (rule list_emb_append_mono)
  then have "subseq (sampledPoints st @ [pts ! n]) (take (Suc n) pts)"
    using split by simp
  with True ne hd0 show ?thesis
    by (simp add: sampler_inv_def sampleStep_def Let_def)
qed

lemma sampler_inv_loop:
  assumes "0 < n" "n \<le> length pts"
  shows "sampler_inv pts n (sampleLoop pts d n)"
  using assms
proof (induction n)
  case 0
  then show ?case by simp
next
  case (Suc n)
  show ?case
  proof (cases "n = 0")
    case True
    from Suc.prems have "pts \<noteq> []" by auto
    with True show ?thesis
      using sampler_inv_init [of pts d] by simp
  next
    case False
    with Suc have "sampler_inv pts n (sampleLoop pts d n)"
      by simp
    with False Suc.prems show ?thesis
      by (simp add: sampleLoop_Suc sampler_inv_step)
  qed
qed

lemma sampleLoop_final:
  assumes "2 \<le> length pts"
  shows "sampler_inv pts (length pts) (sampleLoop pts d (length pts))"
proof (rule sampler_inv_loop)
  from assms show "0 < length pts" by auto
qed simp

lemma last_conv_index: "xs \<noteq> [] \<Longrightarrow> xs ! (length xs - Suc 0) = last xs"
  by (simp add: last_conv_nth)

text \<open>
  C1. For a point sequence of length at least 2 and a positive interval, the sampled
  sequence is not empty, its first element is the first input point, and its last element
  has the coordinates of the last input point.
\<close>

theorem samplePointsAtInterval_endpoints:
  assumes "2 \<le> length pts" and "0 < intervalDistance"
  shows "samplePointsAtInterval pts intervalDistance \<noteq> [] \<and>
         hd (samplePointsAtInterval pts intervalDistance) = hd pts \<and>
         lat (last (samplePointsAtInterval pts intervalDistance)) = lat (last pts) \<and>
         lon (last (samplePointsAtInterval pts intervalDistance)) = lon (last pts)"
proof -
  let ?st = "sampleLoop pts intervalDistance (length pts)"
  from assms(1) have ne: "pts \<noteq> []" by auto
  from sampleLoop_final [OF assms(1)] have sne: "sampledPoints ?st \<noteq> []"
    and hd0: "hd (sampledPoints ?st) = pts ! 0"
    by (simp_all add: sampler_inv_def)
  from ne have hdp: "pts ! 0 = hd pts" by (simp add: hd_conv_nth)
  show ?thesis
    using assms(1) ne sne hd0 hdp
    by (simp add: samplePointsAtInterval_def Let_def last_conv_index)
qed

text \<open>
  C10. For every point sequence and every interval, the sampled sequence is a subsequence
  of the input: its elements are input points, taken at increasing positions, and nothing
  is interpolated.
\<close>

theorem samplePointsAtInterval_subseq:
  "subseq (samplePointsAtInterval pts intervalDistance) pts"
proof (cases "length pts < 2")
  case True
  then show ?thesis by (simp add: samplePointsAtInterval_def)
next
  case False
  let ?st = "sampleLoop pts intervalDistance (length pts)"
  let ?l = "lastSampledIndex ?st"
  from False have len: "2 \<le> length pts" by simp
  from sampleLoop_final [OF len] have l: "?l < length pts"
    and sne: "sampledPoints ?st \<noteq> []"
    and lst: "last (sampledPoints ?st) = pts ! ?l"
    and sub: "subseq (sampledPoints ?st) (take (Suc ?l) pts)"
    by (simp_all add: sampler_inv_def)
  have sub_all: "subseq (sampledPoints ?st) pts"
  proof -
    have "subseq (sampledPoints ?st @ []) (take (Suc ?l) pts @ drop (Suc ?l) pts)"
      using sub by (intro list_emb_append_mono) simp_all
    then show ?thesis by simp
  qed
  show ?thesis
  proof (cases "lat (last (sampledPoints ?st)) \<noteq> lat (last pts) \<or>
                lon (last (sampledPoints ?st)) \<noteq> lon (last pts)")
    case False
    from len have "pts \<noteq> []" by auto
    with False len sne sub_all show ?thesis
      by (simp add: samplePointsAtInterval_def Let_def last_conv_index)
  next
    case True
    from len have pne: "pts \<noteq> []" by auto
    have "?l \<noteq> length pts - 1"
      using True lst pne by (auto simp: last_conv_nth)
    with l have l2: "Suc ?l < length pts" by simp
    have "last pts \<in> set (drop (Suc ?l) pts)"
      using l2 by (metis drop_eq_Nil last_drop last_in_set not_le)
    then have "subseq [last pts] (drop (Suc ?l) pts)"
      by (simp add: subseq_singleton_left)
    with sub have "subseq (sampledPoints ?st @ [last pts]) (take (Suc ?l) pts @ drop (Suc ?l) pts)"
      by (rule list_emb_append_mono)
    with True len sne pne show ?thesis
      by (simp add: samplePointsAtInterval_def Let_def last_conv_index)
  qed
qed

section \<open>Properties of the placeholder generation\<close>

lemma placeholderLoop_Suc:
  "placeholderLoop g op sampled (Suc n) =
     placeholderStep g op sampled n (placeholderLoop g op sampled n)"
  by (simp add: placeholderLoop_def)

lemma pathLength_Suc:
  "pathLength ps (Suc n) = pathLength ps n + pointLeg (ps ! n) (ps ! Suc n)"
  by (simp add: pathLength_def)

lemma placeholderStep_closed:
  "placeholderStep g op sampled n
     \<lparr>images = ims, totalDistance = pathLength sampled (n - 1), progressCalls = cs\<rparr> =
   \<lparr>images = ims @ [placeholderAt g sampled n],
    totalDistance = pathLength sampled n,
    progressCalls = (if op then cs @ [(n + 1, length sampled)] else cs)\<rparr>"
proof (cases n)
  case 0
  then show ?thesis
    by (simp add: placeholderStep_def placeholderAt_def Let_def pathLength_def)
next
  case (Suc m)
  then show ?thesis
    by (simp add: placeholderStep_def placeholderAt_def Let_def pathLength_Suc pointLeg_def)
qed

lemma placeholderLoop_closed:
  "placeholderLoop g op sampled n =
     \<lparr>images = map (placeholderAt g sampled) [0..<n],
      totalDistance = pathLength sampled (n - 1),
      progressCalls = (if op then map (\<lambda>i. (i + 1, length sampled)) [0..<n] else [])\<rparr>"
proof (induction n)
  case 0
  show ?case by (simp add: placeholderLoop_def pathLength_def)
next
  case (Suc n)
  show ?case
    unfolding placeholderLoop_Suc Suc.IH placeholderStep_closed by simp
qed

lemma generateStreetViewPlaceholders_images:
  assumes "generateStreetViewPlaceholders g op pts d = Inr (imgs, calls)"
  shows "imgs = map (placeholderAt g (samplePointsAtInterval pts d))
                  [0..<length (samplePointsAtInterval pts d)]"
    and "samplePointsAtInterval pts d \<noteq> []"
  using assms
  by (auto simp: generateStreetViewPlaceholders_def Let_def placeholderLoop_closed
           split: if_splits)

lemma imageLeg_placeholderAt:
  "imageLeg (placeholderAt g s i) (placeholderAt g s j) = pointLeg (s ! i) (s ! j)"
  by (simp add: imageLeg_def placeholderAt_def pointLeg_def)

text \<open>
  C2. The \<open>distance\<close> of output viewpoint \<open>i\<close> is the sum of \<open>calculateDistance\<close>
  over the consecutive pairs of output viewpoints \<open>0..i\<close> (so it is 0 for viewpoint 0);
  it is not the length of the input path up to that point.
\<close>

theorem placeholders_distance_between_outputs:
  assumes "generateStreetViewPlaceholders generateId onProgress pts intervalDistance = Inr (imgs, calls)"
    and "i < length imgs"
  shows "distance (imgs ! i) = (\<Sum>k<i. imageLeg (imgs ! k) (imgs ! Suc k))"
proof -
  let ?s = "samplePointsAtInterval pts intervalDistance"
  from generateStreetViewPlaceholders_images(1) [OF assms(1)]
  have imgs: "imgs = map (placeholderAt generateId ?s) [0..<length ?s]" .
  with assms(2) have i: "i < length ?s" by simp
  have "distance (imgs ! i) = pathLength ?s i"
    using i by (simp add: imgs placeholderAt_def)
  also have "\<dots> = (\<Sum>k<i. imageLeg (imgs ! k) (imgs ! Suc k))"
    unfolding pathLength_def
  proof (rule sum.cong)
    fix k assume "k \<in> {..<i}"
    with i have "k < length ?s" "Suc k < length ?s" by simp_all
    then show "pointLeg (?s ! k) (?s ! Suc k) = imageLeg (imgs ! k) (imgs ! Suc k)"
      by (simp add: imgs imageLeg_placeholderAt)
  qed simp
  finally show ?thesis .
qed

text \<open>
  C3 (as the code has it). Each viewpoint but the last has the bearing towards the next
  viewpoint as its heading; the last viewpoint has the heading 0.
\<close>

theorem placeholders_heading:
  assumes "generateStreetViewPlaceholders generateId onProgress pts intervalDistance = Inr (imgs, calls)"
  shows "imgs \<noteq> [] \<and>
         (\<forall>i. Suc i < length imgs \<longrightarrow>
              heading (imgs ! i) = Some (imageBearing (imgs ! i) (imgs ! Suc i))) \<and>
         heading (last imgs) = Some 0"
proof -
  let ?s = "samplePointsAtInterval pts intervalDistance"
  from generateStreetViewPlaceholders_images [OF assms]
  have imgs: "imgs = map (placeholderAt generateId ?s) [0..<length ?s]"
    and ne: "?s \<noteq> []" .
  from ne have ine: "imgs \<noteq> []" by (simp add: imgs)
  have "heading (imgs ! i) = Some (imageBearing (imgs ! i) (imgs ! Suc i))"
    if "Suc i < length imgs" for i
    using that by (simp add: imgs placeholderAt_def imageBearing_def)
  moreover have "heading (last imgs) = Some 0"
  proof -
    have "last imgs = imgs ! (length ?s - 1)"
      using ine by (simp add: last_conv_nth imgs)
    also have "\<dots> = placeholderAt generateId ?s (length ?s - 1)"
      using ne by (simp add: imgs)
    finally show ?thesis
      using ne by (simp add: placeholderAt_def)
  qed
  ultimately show ?thesis using ine by blast
qed

section \<open>The sampler and the generation on sample tracks\<close>

lemma big_R: "50 \<le> 6371000 * (pi / 2)"
  using pi_ge_two by linarith

lemma sample_two_points:
  "samplePointsAtInterval [pointAt 0 0, pointAt 0 90] 50 = [pointAt 0 0, pointAt 0 90]"
  using big_R
  by (simp add: samplePointsAtInterval_def sampleLoop_def sampleStep_def Let_def pointAt_def
        dist_0_0_0_90)

lemma sample_three_points:
  "samplePointsAtInterval [pointAt 0 0, pointAt 0 180, pointAt 0 90] 1000000000 =
     [pointAt 0 0, pointAt 0 90]"
proof -
  have a: "\<not> 1000000000 \<le> 6371000 * pi"
    using pi_less_4 by linarith
  have b: "\<not> 1000000000 \<le> 6371000 * pi + 6371000 * (pi / 2)"
    using pi_less_4 by linarith
  let ?pts = "[pointAt 0 0, pointAt 0 180, pointAt 0 90]"
  have s1: "sampleStep ?pts 1000000000 (Suc 0)
      \<lparr>sampledPoints = [?pts ! 0], accumulatedDistance = 0, lastSampledIndex = 0\<rparr> =
      \<lparr>sampledPoints = [pointAt 0 0], accumulatedDistance = 6371000 * pi,
       lastSampledIndex = 0\<rparr>"
    using a by (simp add: sampleStep_def Let_def pointAt_def dist_0_0_0_180)
  have s2: "sampleStep ?pts 1000000000 (Suc (Suc 0))
      \<lparr>sampledPoints = [pointAt 0 0], accumulatedDistance = 6371000 * pi,
       lastSampledIndex = 0\<rparr> =
      \<lparr>sampledPoints = [pointAt 0 0],
       accumulatedDistance = 6371000 * pi + 6371000 * (pi / 2), lastSampledIndex = 0\<rparr>"
    using b by (simp add: sampleStep_def Let_def pointAt_def dist_0_180_0_90)
  have three: "(3::nat) = Suc (Suc (Suc 0))" by simp
  have loop: "sampleLoop ?pts 1000000000 3 =
     \<lparr>sampledPoints = [pointAt 0 0],
      accumulatedDistance = 6371000 * pi + 6371000 * (pi / 2),
      lastSampledIndex = 0\<rparr>"
    unfolding three by (simp only: sampleLoop_Suc sampleLoop_one s1 s2 zero_less_Suc)
  have len: "length [pointAt 0 0, pointAt 0 180, pointAt 0 90] = 3"
    by simp
  show ?thesis
    unfolding samplePointsAtInterval_def len loop
    by (simp add: pointAt_def)
qed

theorem samplePointsAtInterval_endpoints_witness:
  "2 \<le> length [pointAt 0 0, pointAt 0 180, pointAt 0 90] \<and> (0::real) < 1000000000 \<and>
   samplePointsAtInterval [pointAt 0 0, pointAt 0 180, pointAt 0 90] 1000000000 =
     [pointAt 0 0, pointAt 0 90] \<and>
   hd (samplePointsAtInterval [pointAt 0 0, pointAt 0 180, pointAt 0 90] 1000000000) =
     hd [pointAt 0 0, pointAt 0 180, pointAt 0 90] \<and>
   lat (last (samplePointsAtInterval [pointAt 0 0, pointAt 0 180, pointAt 0 90] 1000000000)) =
     lat (last [pointAt 0 0, pointAt 0 180, pointAt 0 90]) \<and>
   lon (last (samplePointsAtInterval [pointAt 0 0, pointAt 0 180, pointAt 0 90] 1000000000)) =
     lon (last [pointAt 0 0, pointAt 0 180, pointAt 0 90])"
proof -
  have h1: "2 \<le> length [pointAt 0 0, pointAt 0 180, pointAt 0 90]" by simp
  have h2: "(0::real) < 1000000000" by simp
  from samplePointsAtInterval_endpoints [OF h1 h2] h1 h2 sample_three_points
  show ?thesis by simp
qed

theorem samplePointsAtInterval_subseq_witness:
  "samplePointsAtInterval [pointAt 0 0, pointAt 0 180, pointAt 0 90] 1000000000 =
     [pointAt 0 0, pointAt 0 90] \<and>
   subseq [pointAt 0 0, pointAt 0 90] [pointAt 0 0, pointAt 0 180, pointAt 0 90]"
  using samplePointsAtInterval_subseq [of "[pointAt 0 0, pointAt 0 180, pointAt 0 90]" 1000000000]
  by (simp only: sample_three_points simp_thms)

lemma placeholders_two_points:
  "generateStreetViewPlaceholders g False [pointAt 0 0, pointAt 0 90] 50 =
     Inr ([placeholderAt g [pointAt 0 0, pointAt 0 90] 0,
           placeholderAt g [pointAt 0 0, pointAt 0 90] 1], [])"
proof -
  have up: "[0..<2] = [0, 1]" by (simp add: upt_rec)
  show ?thesis
    by (simp add: generateStreetViewPlaceholders_def sample_two_points Let_def
          placeholderLoop_closed up)
qed

lemma placeholders_three_points:
  "generateStreetViewPlaceholders g False [pointAt 0 0, pointAt 0 180, pointAt 0 90] 1000000000 =
     Inr ([placeholderAt g [pointAt 0 0, pointAt 0 90] 0,
           placeholderAt g [pointAt 0 0, pointAt 0 90] 1], [])"
proof -
  have up: "[0..<2] = [0, 1]" by (simp add: upt_rec)
  show ?thesis
    by (simp add: generateStreetViewPlaceholders_def sample_three_points Let_def
          placeholderLoop_closed up)
qed

lemma placeholderAt_example_0:
  "placeholderAt g [pointAt 0 0, pointAt 0 90] 0 =
     \<lparr>image_id = g 0, url = None, coordinates = \<lparr>coord_lat = 0, lng = 0\<rparr>,
      heading = Some 90, pitch = Some 0, distance = 0, loaded = False, error = None,
      isLoading = Some False\<rparr>"
  by (simp add: placeholderAt_def pointAt_def bearing_0_0_0_90 pathLength_def)

lemma placeholderAt_example_1:
  "placeholderAt g [pointAt 0 0, pointAt 0 90] 1 =
     \<lparr>image_id = g 1, url = None, coordinates = \<lparr>coord_lat = 0, lng = 90\<rparr>,
      heading = Some 0, pitch = Some 0, distance = 6371000 * (pi / 2), loaded = False,
      error = None, isLoading = Some False\<rparr>"
  by (simp add: placeholderAt_def pointAt_def pathLength_def pointLeg_def dist_0_0_0_90)

lemma pathLength_three_points:
  "pathLength [pointAt 0 0, pointAt 0 180, pointAt 0 90] 2 = 6371000 * pi + 6371000 * (pi / 2)"
proof -
  have "{..<2::nat} = {0, 1}" by auto
  then show ?thesis
    by (simp add: pathLength_def pointLeg_def pointAt_def dist_0_0_0_180 dist_0_180_0_90)
qed

text \<open>
  On the track (0,0), (0,180), (0,90) sampled at an interval longer than the track, the
  viewpoints are (0,0) and (0,90); the second one has the distance of the quarter circle
  between them, while the input path up to it is three quarter circles long.
\<close>

theorem placeholders_distance_between_outputs_witness:
  "generateStreetViewPlaceholders unaryId False
     [pointAt 0 0, pointAt 0 180, pointAt 0 90] 1000000000 =
     Inr ([placeholderAt unaryId [pointAt 0 0, pointAt 0 90] 0,
           placeholderAt unaryId [pointAt 0 0, pointAt 0 90] 1], []) \<and>
   distance (placeholderAt unaryId [pointAt 0 0, pointAt 0 90] 1) =
     imageLeg (placeholderAt unaryId [pointAt 0 0, pointAt 0 90] 0)
              (placeholderAt unaryId [pointAt 0 0, pointAt 0 90] 1) \<and>
   distance (placeholderAt unaryId [pointAt 0 0, pointAt 0 90] 1) = 6371000 * (pi / 2) \<and>
   pathLength [pointAt 0 0, pointAt 0 180, pointAt 0 90] 2 =
     6371000 * pi + 6371000 * (pi / 2)"
proof -
  let ?imgs = "[placeholderAt unaryId [pointAt 0 0, pointAt 0 90] 0,
                placeholderAt unaryId [pointAt 0 0, pointAt 0 90] 1]"
  have run: "generateStreetViewPlaceholders unaryId False
     [pointAt 0 0, pointAt 0 180, pointAt 0 90] 1000000000 = Inr (?imgs, [])"
    by (rule placeholders_three_points)
  have len: "1 < length ?imgs" by simp
  have one: "{..<1::nat} = {0}" by auto
  from placeholders_distance_between_outputs [OF run len]
  have "distance (?imgs ! 1) = imageLeg (?imgs ! 0) (?imgs ! Suc 0)"
    by (simp add: one)
  then have "distance (placeholderAt unaryId [pointAt 0 0, pointAt 0 90] 1) =
     imageLeg (placeholderAt unaryId [pointAt 0 0, pointAt 0 90] 0)
              (placeholderAt unaryId [pointAt 0 0, pointAt 0 90] 1)"
    by simp
  moreover have "distance (placeholderAt unaryId [pointAt 0 0, pointAt 0 90] 1) =
     6371000 * (pi / 2)"
    by (subst placeholderAt_example_1) simp
  ultimately show ?thesis
    using run pathLength_three_points by blast
qed

theorem placeholders_heading_witness:
  "generateStreetViewPlaceholders unaryId False [pointAt 0 0, pointAt 0 90] 50 =
     Inr ([placeholderAt unaryId [pointAt 0 0, pointAt 0 90] 0,
           placeholderAt unaryId [pointAt 0 0, pointAt 0 90] 1], []) \<and>
   heading (placeholderAt unaryId [pointAt 0 0, pointAt 0 90] 0) =
     Some (imageBearing (placeholderAt unaryId [pointAt 0 0, pointAt 0 90] 0)
                        (placeholderAt unaryId [pointAt 0 0, pointAt 0 90] 1)) \<and>
   heading (placeholderAt unaryId [pointAt 0 0, pointAt 0 90] 1) = Some 0"
proof -
  let ?imgs = "[placeholderAt unaryId [pointAt 0 0, pointAt 0 90] 0,
                placeholderAt unaryId [pointAt 0 0, pointAt 0 90] 1]"
  have run: "generateStreetViewPlaceholders unaryId False [pointAt 0 0, pointAt 0 90] 50 =
     Inr (?imgs, [])"
    by (rule placeholders_two_points)
  from placeholders_heading [OF run]
  have all: "\<forall>i. Suc i < length ?imgs \<longrightarrow>
      heading (?imgs ! i) = Some (imageBearing (?imgs ! i) (?imgs ! Suc i))"
    and lst: "heading (last ?imgs) = Some 0"
    by blast+
  from all have "Suc 0 < length ?imgs \<longrightarrow>
      heading (?imgs ! 0) = Some (imageBearing (?imgs ! 0) (?imgs ! Suc 0))"
    by (rule spec)
  then have "heading (placeholderAt unaryId [pointAt 0 0, pointAt 0 90] 0) =
     Some (imageBearing (placeholderAt unaryId [pointAt 0 0, pointAt 0 90] 0)
                        (placeholderAt unaryId [pointAt 0 0, pointAt 0 90] 1))"
    by simp
  moreover from lst have "heading (placeholderAt unaryId [pointAt 0 0, pointAt 0 90] 1) = Some 0"
    by simp
  ultimately show ?thesis using run by blast
qed

text \<open>
  On the track (0,0), (0,90) sampled every 50 metres, the last of the two viewpoints has
  the heading 0, which is a defined heading (due north).
\<close>

theorem placeholders_last_heading_counterexample:
  "map heading (fst (projr (generateStreetViewPlaceholders unaryId False
      [pointAt 0 0, pointAt 0 90] 50))) = [Some 90, Some 0]"
  unfolding placeholders_two_points placeholderAt_example_0 placeholderAt_example_1
  by simp

section \<open>Properties of the viewpoint resolver\<close>

text \<open>
  C5 (as the code has it). For a viewpoint that is already loaded or loading and any
  present (non-empty) credential, \<open>loadStreetViewImage\<close> returns the input record
  unchanged and requests no image. The credential check comes first: an absent credential
  is rejected for such a viewpoint too.
\<close>

theorem loadStreetViewImage_already_loaded:
  assumes "apiKey \<noteq> []" and "loaded img \<or> isLoading img = Some True"
  shows "loadStreetViewImage br img apiKey imageSize fov pt = (Inr img, [])"
  using assms by (simp add: loadStreetViewImage_def)

theorem loadStreetViewImage_already_loaded_witness:
  "''key'' \<noteq> [] \<and> (loaded loadedImage \<or> isLoading loadedImage = Some True) \<and>
   loadStreetViewImage sampleBrowser loadedImage ''key'' None None None = (Inr loadedImage, [])"
proof -
  have k: "''key'' \<noteq> []" by simp
  have l: "loaded loadedImage \<or> isLoading loadedImage = Some True"
    by (simp add: loadedImage_def)
  from loadStreetViewImage_already_loaded [OF k l, of sampleBrowser None None None] k l
  show ?thesis by blast
qed

text \<open>A loaded viewpoint resolved with the empty credential: the call is rejected.\<close>

theorem loadStreetViewImage_loaded_empty_key_counterexample:
  "loaded loadedImage \<and>
   loadStreetViewImage sampleBrowser loadedImage [] None None None =
     (Inl (Error ''Google API key is required''), [])"
  by (simp add: loadStreetViewImage_def loadedImage_def)

text \<open>
  C6 (as the code has it). With an absent (empty) credential \<open>loadStreetViewImage\<close> is
  rejected with the error "Google API key is required", returns no record and requests no
  image. No format check is applied: every non-empty credential, well-formed or not, is
  accepted and the call resolves with a record.
\<close>

theorem loadStreetViewImage_credential:
  "(apiKey = [] \<longrightarrow>
      loadStreetViewImage br img apiKey imageSize fov pt =
        (Inl (Error ''Google API key is required''), [])) \<and>
   (apiKey \<noteq> [] \<longrightarrow> \<not> isl (fst (loadStreetViewImage br img apiKey imageSize fov pt)))"
  by (simp add: loadStreetViewImage_def Let_def)

theorem loadStreetViewImage_credential_witness:
  "loadStreetViewImage sampleBrowser pendingImage [] None None None =
     (Inl (Error ''Google API key is required''), []) \<and>
   \<not> isl (fst (loadStreetViewImage sampleBrowser pendingImage
      ''AIzaSyA-0123456789_abcdefghijklmnopqrstu'' None None None))"
  using loadStreetViewImage_credential [of "[]" sampleBrowser pendingImage None None None]
    loadStreetViewImage_credential [of "''AIzaSyA-0123456789_abcdefghijklmnopqrstu''"
      sampleBrowser pendingImage None None None]
  by simp

text \<open>
  The credential \<open>abc\<close> fails the format check, and a pending viewpoint resolved with it
  is not rejected: the image is requested and the call resolves with a record.
\<close>

theorem loadStreetViewImage_invalid_key_counterexample:
  "\<not> validateApiKey ''abc'' \<and>
   \<not> isl (fst (loadStreetViewImage sampleBrowser pendingImage ''abc'' None None None)) \<and>
   snd (loadStreetViewImage sampleBrowser pendingImage ''abc'' None None None) \<noteq> [] \<and>
   loaded (projr (fst (loadStreetViewImage sampleBrowser pendingImage ''abc'' None None None)))"
  by (simp add: validateApiKey_def loadStreetViewImage_def Let_def pendingImage_def
        sampleBrowser_def)

section \<open>Properties of the export pipeline\<close>

lemma fold_zipStep_skip:
  assumes "\<forall>p \<in> set ps. \<not> (loaded (snd p) \<and> \<not> truthy (error (snd p)))"
  shows "fold (zipStep env) ps st = st"
  using assms by (induction ps arbitrary: st) (auto simp: zipStep_def Let_def)

lemma fold_individualStep_skip:
  assumes "\<forall>p \<in> set ps. \<not> (loaded (snd p) \<and> \<not> truthy (error (snd p)))"
  shows "fold (individualStep env rn) ps evs = evs"
  using assms by (induction ps arbitrary: evs) (auto simp: individualStep_def Let_def)

text \<open>
  Called on a sequence without a loaded, error-free image, the two export functions
  fetch nothing; the individual export does nothing at all.
\<close>

lemma no_valid_in_zip:
  assumes "filter (\<lambda>img. loaded img \<and> \<not> truthy (error img)) imgs = []"
  shows "\<forall>p \<in> set (zip [0..<length imgs] imgs). \<not> (loaded (snd p) \<and> \<not> truthy (error (snd p)))"
proof
  fix p assume p: "p \<in> set (zip [0..<length imgs] imgs)"
  have "snd p \<in> set imgs"
    using p set_zip_rightD [of "fst p" "snd p" "[0..<length imgs]" imgs] by simp
  with assms show "\<not> (loaded (snd p) \<and> \<not> truthy (error (snd p)))"
    by (auto simp: filter_empty_conv)
qed

lemma exportIndividualImages_nothing_valid:
  assumes "filter (\<lambda>img. loaded img \<and> \<not> truthy (error img)) imgs = []"
  shows "exportIndividualImages env imgs rn = (Inr (), [])"
  using fold_individualStep_skip [OF no_valid_in_zip [OF assms]]
  by (simp add: exportIndividualImages_def Let_def)

lemma exportImagesAsZip_nothing_valid:
  assumes "filter (\<lambda>img. loaded img \<and> \<not> truthy (error img)) imgs = []"
  shows "\<forall>e \<in> set (snd (exportImagesAsZip env imgs opts rn)). \<forall>u. e \<noteq> Fetch u"
  using fold_zipStep_skip [OF no_valid_in_zip [OF assms]]
  by (auto simp: exportImagesAsZip_def Let_def split: option.splits)

text \<open>
  C7 (as the code has it). When no image of the sequence is loaded and free of error,
  the export dialog reports it: it renders the destructive alert "No valid images to
  export" and disables the Export button, so a click starts nothing. The failure is not
  raised as an error: \<open>handleExport\<close>, if it is called all the same, returns at once and
  its promise resolves. Either way nothing is fetched and no archive or file is saved.
\<close>

theorem handleExport_nothing_to_export:
  assumes "filter (\<lambda>img. loaded img \<and> \<not> truthy (error img)) imgs = []"
  shows "destructiveAlert (renderExportDialog imgs isExporting) =
           Some (''No valid images to export. '' @
                 ''Please ensure Street View images have loaded successfully.'') \<and>
         exportDisabled (renderExportDialog imgs isExporting) \<and>
         clickExport env imgs exportOptions routeName isExporting = (Inr (), []) \<and>
         handleExport env imgs exportOptions routeName = (Inr (), [])"
  using assms by (simp add: handleExport_def renderExportDialog_def clickExport_def Let_def)

theorem handleExport_nothing_to_export_witness:
  "filter (\<lambda>img. loaded img \<and> \<not> truthy (error img)) [pendingImage] = [] \<and>
   destructiveAlert (renderExportDialog [pendingImage] False) =
     Some ''No valid images to export. Please ensure Street View images have loaded successfully.'' \<and>
   exportDisabled (renderExportDialog [pendingImage] False) \<and>
   clickExport sampleExportEnv [pendingImage] zipOptions ''route'' False = (Inr (), []) \<and>
   handleExport sampleExportEnv [pendingImage] zipOptions ''route'' = (Inr (), [])"
proof -
  have h: "filter (\<lambda>img. loaded img \<and> \<not> truthy (error img)) [pendingImage] = []"
    by (simp add: pendingImage_def)
  from handleExport_nothing_to_export
    [OF h, of False sampleExportEnv zipOptions "''route''"] h
  show ?thesis by simp
qed

text \<open>
  On the empty sequence the promise of \<open>handleExport\<close> resolves, and nothing is logged to
  the console or shown with \<open>alert\<close>: no failure is raised.
\<close>

theorem export_empty_no_failure_counterexample:
  "handleExport sampleExportEnv [] zipOptions ''route'' = (Inr (), [])"
  by (simp add: handleExport_def Let_def)

text \<open>
  \<open>exportImagesAsZip\<close> has no check of its own: called on the empty sequence, which
  \<open>handleExport\<close> never does, it saves an archive without images.
\<close>

lemma exportImagesAsZip_empty_archive:
  "exportImagesAsZip sampleExportEnv [] zipOptions (Some ''route'') =
     (Inr (), [SaveAs (ZipArchive [(''images/'', Folder),
                                   (''metadata.json'', MetadataJson [] ''route''),
                                   (''route_info.txt'', RouteInfoText [] ''route'')])
                      ''route_street_view.zip''])"
  by (simp add: exportImagesAsZip_def sampleExportEnv_def zipOptions_def
        sanitizeName_def toLowerChar_def Let_def)

section \<open>Properties of the track parser\<close>


lemma waypointStep_valid:
  "waypointStep pf el pts = (if validPoint pf el then pts @ [pointFromElement pf el] else pts)"
  by (simp add: waypointStep_def validPoint_def Let_def)







section \<open>The parser on sample documents\<close>

lemma pf1: "parseFloatDecimal ''1'' = Num 1"
  by (simp add: parseFloatDecimal_def Let_def isDigit_def natOfDigits_def digitVal_def)
lemma pfx: "parseFloatDecimal ''x'' = NaN"
  by (simp add: parseFloatDecimal_def Let_def isDigit_def natOfDigits_def digitVal_def)
lemma pfabc: "parseFloatDecimal ''abc'' = NaN"
  by (simp add: parseFloatDecimal_def Let_def isDigit_def natOfDigits_def digitVal_def)
lemma pf15: "parseFloatDecimal '' -12.5xyz'' = Num (- 12.5)"
  by (simp add: parseFloatDecimal_def Let_def isDigit_def natOfDigits_def digitVal_def)
















end
